theory Spec2Isabelle
  imports Complex_Main "HOL-Library.AList"
begin

section \<open>Session lifecycle of the LSP REST server (src/multilspy/server.py)\<close>

text \<open>
  The classes \<^verbatim>\<open>LSPSession\<close> and \<^verbatim>\<open>SessionManager\<close> are embedded as functions
  over explicit state. Every call into the underlying client library
  (\<^verbatim>\<open>SyncLanguageServer\<close>), into \<^verbatim>\<open>uuid\<close>, \<^verbatim>\<open>time\<close> and \<^verbatim>\<open>os.path\<close> is a call out
  of the file: what such a call answers is a parameter of the operation that makes it, and the
  call itself is recorded as an event, so that each operation returns its result, the new
  state and the list of events in program order.
\<close>

subsection \<open>Exceptions and results\<close>

text \<open>
  A value of \<open>error\<close> is an instance of Python's \<^verbatim>\<open>Exception\<close>, the class the handler
  of \<^verbatim>\<open>LSPSession.stop\<close> names. The first two constructors are the exceptions the file
  raises itself; the others are raised by the client library.
\<close>

datatype error =
    ValueError string
  | RuntimeError string
  | FileNotFoundError string
  | OtherError string

datatype 'a outcome = Returns 'a | Raises error

text \<open>What \<^verbatim>\<open>__exit__\<close> of a context manager does: it returns a value, whose truth
  decides whether an exception in flight is swallowed, or it raises.\<close>

datatype exit_result = ExitReturns bool | ExitRaises error

subsection \<open>Handles and events\<close>

type_synonym client = nat     \<comment> \<open>identity of a \<^verbatim>\<open>SyncLanguageServer\<close> object\<close>
type_synonym context_manager = nat    \<comment> \<open>identity of the context manager \<^verbatim>\<open>start_server()\<close> returns\<close>
type_synonym lock = nat       \<comment> \<open>identity of a \<^verbatim>\<open>threading.Lock\<close> object\<close>

datatype Language = PYTHON | JAVA

datatype event =
    Acquire lock                      \<comment> \<open>entering \<^verbatim>\<open>with lock:\<close>\<close>
  | Release lock                      \<comment> \<open>leaving it, on every path\<close>
  | Create Language string            \<comment> \<open>\<^verbatim>\<open>SyncLanguageServer.create(config, logger, project_path)\<close>\<close>
  | StartServer client                \<comment> \<open>\<^verbatim>\<open>lsp.start_server()\<close>\<close>
  | ContextEnter context_manager              \<comment> \<open>\<^verbatim>\<open>server_context.__enter__()\<close>\<close>
  | ContextExit context_manager               \<comment> \<open>\<^verbatim>\<open>server_context.__exit__(None, None, None)\<close>\<close>
  | OpenFileEnter client string       \<comment> \<open>entering \<^verbatim>\<open>with lsp.open_file(file_path):\<close>\<close>
  | OpenFileExit client string        \<comment> \<open>leaving it\<close>
  | Sleep real                        \<comment> \<open>\<^verbatim>\<open>time.sleep(seconds)\<close>\<close>
  | RequestDiagnostics client string  \<comment> \<open>\<^verbatim>\<open>lsp.request_diagnostics(file_path)\<close>\<close>
  | SessionsStore string              \<comment> \<open>\<^verbatim>\<open>self._sessions[session_id] = session\<close>\<close>
  | SessionsPop string                \<comment> \<open>\<^verbatim>\<open>self._sessions.pop(session_id, None)\<close>\<close>
  | SessionsGet string                \<comment> \<open>\<^verbatim>\<open>self._sessions.get(session_id)\<close>\<close>

text \<open>The events that are operations of the underlying client of a session.\<close>

fun client_operation :: "event \<Rightarrow> bool" where
  "client_operation (OpenFileEnter c p) = True"
| "client_operation (OpenFileExit c p) = True"
| "client_operation (RequestDiagnostics c p) = True"
| "client_operation (StartServer c) = True"
| "client_operation (ContextEnter x) = True"
| "client_operation (ContextExit x) = True"
| "client_operation e = False"

subsection \<open>LSPSession\<close>

record LSPSession =
  session_id :: string
  language :: string
  project_path :: string
  lsp :: "client option"
  server_context :: "context_manager option"
  created_at :: real
  session_lock :: lock

text \<open>\<^verbatim>\<open>__init__\<close>: \<open>now\<close> is what \<^verbatim>\<open>time.time()\<close> answers and \<open>l\<close> the lock that
  \<^verbatim>\<open>threading.Lock()\<close> makes.\<close>

definition LSPSession_init :: "real \<Rightarrow> lock \<Rightarrow> string \<Rightarrow> string \<Rightarrow> string \<Rightarrow> LSPSession" where
  "LSPSession_init now l sid lang path =
     \<lparr>session_id = sid, language = lang, project_path = path, lsp = None,
      server_context = None, created_at = now, session_lock = l\<rparr>"

text \<open>What the three library calls of \<^verbatim>\<open>start\<close> answer. The configuration and the
  logger are built for the call of \<^verbatim>\<open>create\<close> and count as part of it.\<close>

record start_env =
  create_result :: "client outcome"
  start_server_result :: "context_manager outcome"
  enter_result :: "unit outcome"

definition start :: "start_env \<Rightarrow> LSPSession \<Rightarrow> unit outcome \<times> LSPSession \<times> event list" where
  "start env s =
     (let lang_enum = (if language s = ''python'' then PYTHON else JAVA);
          ev1 = [Create lang_enum (project_path s)]
      in case create_result env of
           Raises e \<Rightarrow> (Raises e, s, ev1)
         | Returns c \<Rightarrow>
             (let s1 = s\<lparr>lsp := Some c\<rparr>; ev2 = ev1 @ [StartServer c]
              in case start_server_result env of
                   Raises e \<Rightarrow> (Raises e, s1, ev2)
                 | Returns x \<Rightarrow>
                     (let s2 = s1\<lparr>server_context := Some x\<rparr>; ev3 = ev2 @ [ContextEnter x]
                      in case enter_result env of
                           Raises e \<Rightarrow> (Raises e, s2, ev3)
                         | Returns u \<Rightarrow> (Returns (), s2, ev3))))"

text \<open>\<^verbatim>\<open>try: ... except Exception: pass\<close> around a statement.\<close>

definition except_Exception_pass :: "unit outcome \<Rightarrow> unit outcome" where
  "except_Exception_pass r = (case r of Raises e \<Rightarrow> Returns () | Returns u \<Rightarrow> Returns u)"

text \<open>\<^verbatim>\<open>stop\<close>: \<open>exit_result\<close> is what \<^verbatim>\<open>server_context.__exit__(None, None, None)\<close>
  does when it is called. The two assignments run only when the statement before them
  completes.\<close>

definition stop :: "unit outcome \<Rightarrow> LSPSession \<Rightarrow> unit outcome \<times> LSPSession \<times> event list" where
  "stop exit_result s =
     (let (r, evs) = (case server_context s of
                        Some x \<Rightarrow> (except_Exception_pass exit_result, [ContextExit x])
                      | None \<Rightarrow> (Returns (), []))
      in case r of
           Raises e \<Rightarrow> (Raises e, s, evs)
         | Returns u \<Rightarrow> (Returns (), s\<lparr>lsp := None, server_context := None\<rparr>, evs))"

text \<open>What the library calls of \<^verbatim>\<open>get_diagnostics\<close> answer. The diagnostics are the
  client's own values, of any type \<open>'d\<close>.\<close>

record 'd diagnostics_env =
  open_file_enter :: "unit outcome"
  request_diagnostics_result :: "'d list outcome"
  open_file_exit :: exit_result

text \<open>Leaving a \<^verbatim>\<open>with\<close> block whose body ended as \<open>body\<close>, when \<^verbatim>\<open>__exit__\<close> does
  \<open>x\<close>. A swallowed exception lets control fall out of the block, and here out of the
  function, which then returns \<^verbatim>\<open>None\<close>.\<close>

definition with_exit :: "exit_result \<Rightarrow> 'a outcome \<Rightarrow> 'a option outcome" where
  "with_exit x body =
     (case x of
        ExitRaises e \<Rightarrow> Raises e
      | ExitReturns b \<Rightarrow>
          (case body of
             Returns v \<Rightarrow> Returns (Some v)
           | Raises e \<Rightarrow> if b then Returns None else Raises e))"

definition get_diagnostics ::
  "'d diagnostics_env \<Rightarrow> string \<Rightarrow> LSPSession \<Rightarrow> 'd list option outcome \<times> event list" where
  "get_diagnostics env file_path s =
     (case lsp s of
        None \<Rightarrow> (Raises (RuntimeError ''LSP server not started''), [])
      | Some c \<Rightarrow>
          (case open_file_enter env of
             Raises e \<Rightarrow>
               (Raises e,
                [Acquire (session_lock s), OpenFileEnter c file_path, Release (session_lock s)])
           | Returns u \<Rightarrow>
               (with_exit (open_file_exit env) (request_diagnostics_result env),
                [Acquire (session_lock s), OpenFileEnter c file_path,
                 Sleep (if language s = ''python'' then 2.0 else 5.0),
                 RequestDiagnostics c file_path, OpenFileExit c file_path,
                 Release (session_lock s)])))"

subsection \<open>SessionManager\<close>

text \<open>The dictionary \<^verbatim>\<open>_sessions\<close> is an association list in insertion order: storing
  under a key that is present replaces the value in place, storing under a new key appends.\<close>

record SessionManager =
  sessions :: "(string \<times> LSPSession) list"
  manager_lock :: lock

definition SessionManager_init :: "lock \<Rightarrow> SessionManager" where
  "SessionManager_init l = \<lparr>sessions = [], manager_lock = l\<rparr>"

text \<open>\<^verbatim>\<open>os.path\<close>, as far as \<^verbatim>\<open>create_session\<close> asks it.\<close>

record os_path =
  isabs :: "string \<Rightarrow> bool"
  isdir :: "string \<Rightarrow> bool"

text \<open>What the calls of \<^verbatim>\<open>create_session\<close> answer: \<^verbatim>\<open>uuid.uuid4().hex\<close>, and the
  clock, the new lock and the client library for the session it builds.\<close>

record create_env =
  uuid4_hex :: string
  time_now :: real
  new_lock :: lock
  starting :: start_env

definition create_session ::
  "os_path \<Rightarrow> create_env \<Rightarrow> string \<Rightarrow> string \<Rightarrow> SessionManager
     \<Rightarrow> LSPSession outcome \<times> SessionManager \<times> event list" where
  "create_session os env lang path m =
     (if lang \<notin> set [''python'', ''java''] then
        (Raises (ValueError (''Unsupported language: '' @ lang)), m, [])
      else if \<not> isabs os path then
        (Raises (ValueError ''project_path must be an absolute path''), m, [])
      else if \<not> isdir os path then
        (Raises (ValueError (''project_path does not exist: '' @ path)), m, [])
      else
        (let sid = take 12 (uuid4_hex env);
             session = LSPSession_init (time_now env) (new_lock env) sid lang path
         in case start (starting env) session of
              (Raises e, session', evs) \<Rightarrow> (Raises e, m, evs)
            | (Returns u, session', evs) \<Rightarrow>
                (Returns session',
                 m\<lparr>sessions := AList.update sid session' (sessions m)\<rparr>,
                 evs @ [Acquire (manager_lock m), SessionsStore sid, Release (manager_lock m)])))"

definition get_session :: "string \<Rightarrow> SessionManager \<Rightarrow> LSPSession option \<times> event list" where
  "get_session sid m =
     (map_of (sessions m) sid,
      [Acquire (manager_lock m), SessionsGet sid, Release (manager_lock m)])"

definition delete_session ::
  "unit outcome \<Rightarrow> string \<Rightarrow> SessionManager \<Rightarrow> bool outcome \<times> SessionManager \<times> event list" where
  "delete_session exit_result sid m =
     (let session = map_of (sessions m) sid;
          m' = m\<lparr>sessions := AList.delete sid (sessions m)\<rparr>;
          evs = [Acquire (manager_lock m), SessionsPop sid, Release (manager_lock m)]
      in case session of
           Some s \<Rightarrow>
             (case stop exit_result s of
                (Raises e, s', evs') \<Rightarrow> (Raises e, m', evs @ evs')
              | (Returns u, s', evs') \<Rightarrow> (Returns True, m', evs @ evs'))
         | None \<Rightarrow> (Returns False, m', evs))"

definition list_sessions :: "SessionManager \<Rightarrow> string list \<times> event list" where
  "list_sessions m =
     (map fst (sessions m), [Acquire (manager_lock m), Release (manager_lock m)])"

subsection \<open>Sequences of registry operations\<close>

text \<open>The registry is used through \<open>create_session\<close> and \<open>delete_session\<close>; each
  operation of a sequence carries what its calls out of the file answer.\<close>

datatype operation =
    CreateSession os_path create_env string string
  | DeleteSession "unit outcome" string

fun apply_operation :: "operation \<Rightarrow> SessionManager \<Rightarrow> SessionManager" where
  "apply_operation (CreateSession os env lang path) m =
     fst (snd (create_session os env lang path m))"
| "apply_operation (DeleteSession r sid) m = fst (snd (delete_session r sid m))"

fun run :: "operation list \<Rightarrow> SessionManager \<Rightarrow> SessionManager" where
  "run [] m = m"
| "run (op # ops) m = run ops (apply_operation op m)"

text \<open>The ids of the sessions that the creations of a sequence return, in order.\<close>

fun created_ids :: "operation list \<Rightarrow> SessionManager \<Rightarrow> string list" where
  "created_ids [] m = []"
| "created_ids (CreateSession os env lang path # ops) m =
     (case fst (create_session os env lang path m) of
        Returns s \<Rightarrow> [session_id s]
      | Raises e \<Rightarrow> [])
     @ created_ids ops (apply_operation (CreateSession os env lang path) m)"
| "created_ids (DeleteSession r sid # ops) m =
     created_ids ops (apply_operation (DeleteSession r sid) m)"

text \<open>Every creation of the sequence leaves each entry that is in the registry before it in
  the registry after it, under the same key.\<close>

fun keeps_entries :: "operation list \<Rightarrow> SessionManager \<Rightarrow> bool" where
  "keeps_entries [] m = True"
| "keeps_entries (CreateSession os env lang path # ops) m =
     ((\<forall>(k, s) \<in> set (sessions m).
         map_of (sessions (apply_operation (CreateSession os env lang path) m)) k = Some s)
      \<and> keeps_entries ops (apply_operation (CreateSession os env lang path) m))"
| "keeps_entries (DeleteSession r sid # ops) m =
     keeps_entries ops (apply_operation (DeleteSession r sid) m)"

definition one_session_per_id :: "SessionManager \<Rightarrow> bool" where
  "one_session_per_id m =
     (distinct (map fst (sessions m)) \<and> (\<forall>(k, s) \<in> set (sessions m). session_id s = k))"

subsection \<open>Two concurrent calls\<close>

text \<open>
  Two callers run one operation each. What each of them does is the event list of its
  operation; what the two do together is a merge of the two lists, each event tagged with
  its caller. A \<^verbatim>\<open>threading.Lock\<close> is free or held: \<^verbatim>\<open>with lock:\<close> is entered only
  while the lock is free and holds it from then on, leaving the block frees it. A merge in
  which every event is taken at a moment when it can be is an interleaving.
\<close>

datatype caller = T1 | T2

fun enabled :: "lock set \<Rightarrow> event \<Rightarrow> bool" where
  "enabled held (Acquire l) = (l \<notin> held)"
| "enabled held e = True"

fun held_after :: "lock set \<Rightarrow> event \<Rightarrow> lock set" where
  "held_after held (Acquire l) = insert l held"
| "held_after held (Release l) = held - {l}"
| "held_after held e = held"

fun interleaving ::
  "lock set \<Rightarrow> event list \<Rightarrow> event list \<Rightarrow> (caller \<times> event) list \<Rightarrow> bool" where
  "interleaving held t1 t2 [] = (t1 = [] \<and> t2 = [])"
| "interleaving held t1 t2 ((T1, e) # r) =
     (case t1 of
        [] \<Rightarrow> False
      | e1 # t1' \<Rightarrow> e = e1 \<and> enabled held e \<and> interleaving (held_after held e) t1' t2 r)"
| "interleaving held t1 t2 ((T2, e) # r) =
     (case t2 of
        [] \<Rightarrow> False
      | e2 # t2' \<Rightarrow> e = e2 \<and> enabled held e \<and> interleaving (held_after held e) t1 t2' r)"

text \<open>The client operations of one caller all come before those of the other.\<close>

definition serialized :: "(caller \<times> event) list \<Rightarrow> bool" where
  "serialized r =
     (let ts = map fst (filter (\<lambda>(t, e). client_operation e) r)
      in ts = filter (\<lambda>t. t = T1) ts @ filter (\<lambda>t. t = T2) ts
       \<or> ts = filter (\<lambda>t. t = T2) ts @ filter (\<lambda>t. t = T1) ts)"

fun lock_event :: "event \<Rightarrow> bool" where
  "lock_event (Acquire l) = True"
| "lock_event (Release l) = True"
| "lock_event e = False"

subsection \<open>Concrete values\<close>

text \<open>A project on a POSIX file system with two directories, a client library whose calls
  succeed, one whose server fails to start, and a running session in a registry.\<close>

definition example_os :: os_path where
  "example_os = \<lparr>isabs = (\<lambda>p. take 1 p = ''/''), isdir = (\<lambda>p. p \<in> set [''/srv/app'', ''/srv/lib''])\<rparr>"

definition example_start_env :: start_env where
  "example_start_env =
     \<lparr>create_result = Returns 7, start_server_result = Returns 8, enter_result = Returns ()\<rparr>"

definition failing_start_env :: start_env where
  "failing_start_env =
     \<lparr>create_result = Returns 7,
      start_server_result = Raises (OtherError ''language server exited''),
      enter_result = Returns ()\<rparr>"

definition example_create_env :: create_env where
  "example_create_env =
     \<lparr>uuid4_hex = ''0123456789ab4cde8f0123456789abcd'', time_now = 1700000000,
      new_lock = 1, starting = example_start_env\<rparr>"

definition failing_create_env :: create_env where
  "failing_create_env =
     \<lparr>uuid4_hex = ''0123456789ab4cde8f0123456789abcd'', time_now = 1700000000,
      new_lock = 1, starting = failing_start_env\<rparr>"

definition example_session :: LSPSession where
  "example_session =
     \<lparr>session_id = ''0123456789ab'', language = ''python'', project_path = ''/srv/app'',
      lsp = Some 7, server_context = Some 8, created_at = 1700000000, session_lock = 1\<rparr>"

definition example_manager :: SessionManager where
  "example_manager = \<lparr>sessions = [(''0123456789ab'', example_session)], manager_lock = 0\<rparr>"

text \<open>A diagnostic as the client hands it over: a dictionary.\<close>

datatype pyobj = PyInt int | PyStr string | PyDict "(string \<times> pyobj) list"

definition example_diagnostic :: pyobj where
  "example_diagnostic =
     PyDict [(''range'',
              PyDict [(''start'', PyDict [(''line'', PyInt 2), (''character'', PyInt 4)]),
                      (''end'', PyDict [(''line'', PyInt 2), (''character'', PyInt 9)])]),
             (''message'', PyStr ''unterminated string literal''),
             (''severity'', PyInt 1)]"

definition example_diagnostics_env :: "pyobj diagnostics_env" where
  "example_diagnostics_env =
     \<lparr>open_file_enter = Returns (),
      request_diagnostics_result = Returns [example_diagnostic, example_diagnostic],
      open_file_exit = ExitReturns False\<rparr>"

text \<open>The session that \<open>start\<close> leaves when \<^verbatim>\<open>create\<close> has returned a client and
  \<^verbatim>\<open>start_server\<close> has raised.\<close>

definition failed_start_session :: LSPSession where
  "failed_start_session =
     \<lparr>session_id = ''0123456789ab'', language = ''java'', project_path = ''/srv/lib'',
      lsp = Some 7, server_context = None, created_at = 1700000000, session_lock = 1\<rparr>"

definition missing_file_env :: "pyobj diagnostics_env" where
  "missing_file_env =
     \<lparr>open_file_enter = Raises (FileNotFoundError ''src/gone.py''),
      request_diagnostics_result = Returns [],
      open_file_exit = ExitReturns False\<rparr>"

text \<open>A second creation whose uuid differs from the first but begins with the same twelve
  digits, one whose uuid begins differently, and a second running session.\<close>

definition colliding_create_env :: create_env where
  "colliding_create_env =
     \<lparr>uuid4_hex = ''0123456789ab4000a000000000000000'', time_now = 1700000060,
      new_lock = 2,
      starting = \<lparr>create_result = Returns 9, start_server_result = Returns 10,
                   enter_result = Returns ()\<rparr>\<rparr>"

definition other_create_env :: create_env where
  "other_create_env =
     \<lparr>uuid4_hex = ''fedcba9876544321b000000000000000'', time_now = 1700000060,
      new_lock = 2,
      starting = \<lparr>create_result = Returns 9, start_server_result = Returns 10,
                   enter_result = Returns ()\<rparr>\<rparr>"

definition collision_operations :: "operation list" where
  "collision_operations =
     [CreateSession example_os example_create_env ''python'' ''/srv/app'',
      CreateSession example_os colliding_create_env ''java'' ''/srv/lib'']"

definition example_operations :: "operation list" where
  "example_operations =
     [CreateSession example_os example_create_env ''python'' ''/srv/app'',
      CreateSession example_os other_create_env ''java'' ''/srv/lib'',
      DeleteSession (Returns ()) ''0123456789ab'']"

definition other_session :: LSPSession where
  "other_session =
     \<lparr>session_id = ''fedcba987654'', language = ''java'', project_path = ''/srv/lib'',
      lsp = Some 9, server_context = Some 10, created_at = 1700000060, session_lock = 2\<rparr>"

definition example_schedule :: "(caller \<times> event) list" where
  "example_schedule =
     map (Pair T2) (snd (get_diagnostics example_diagnostics_env ''src/util.py'' example_session))
     @ map (Pair T1) (snd (get_diagnostics example_diagnostics_env ''src/main.py'' example_session))"


section \<open>Properties\<close>

subsection \<open>Helper facts\<close>

lemma start_cases:
  "start env s =
     (case create_result env of
        Raises e \<Rightarrow>
          (Raises e, s,
           [Create (if language s = ''python'' then PYTHON else JAVA) (project_path s)])
      | Returns c \<Rightarrow>
          (case start_server_result env of
             Raises e \<Rightarrow>
               (Raises e, s\<lparr>lsp := Some c\<rparr>,
                [Create (if language s = ''python'' then PYTHON else JAVA) (project_path s),
                 StartServer c])
           | Returns x \<Rightarrow>
               (case enter_result env of Raises e \<Rightarrow> Raises e | Returns u \<Rightarrow> Returns (),
                s\<lparr>lsp := Some c, server_context := Some x\<rparr>,
                [Create (if language s = ''python'' then PYTHON else JAVA) (project_path s),
                 StartServer c, ContextEnter x])))"
  by (simp add: start_def Let_def split: outcome.splits)

lemma start_session_id: "start env s = (r, s', evs) \<Longrightarrow> session_id s' = session_id s"
  by (auto simp add: start_cases split: outcome.splits)

lemma start_no_store: "start env s = (r, s', evs) \<Longrightarrow> SessionsStore k \<notin> set evs"
  by (auto simp add: start_cases split: outcome.splits)

lemma stop_returns:
  "stop r s =
     (Returns (), s\<lparr>lsp := None, server_context := None\<rparr>,
      (case server_context s of Some x \<Rightarrow> [ContextExit x] | None \<Rightarrow> []))"
  by (cases r; cases "server_context s") (simp_all add: stop_def except_Exception_pass_def)

text \<open>What \<open>create_session\<close> and \<open>delete_session\<close> do to the registry.\<close>

lemma create_session_cases:
  "(\<exists>s evs. create_session os env lang path m =
              (Returns s, m\<lparr>sessions := AList.update (session_id s) s (sessions m)\<rparr>, evs)
            \<and> session_id s = take 12 (uuid4_hex env))
   \<or> (\<exists>e evs. create_session os env lang path m = (Raises e, m, evs))"
  by (auto simp add: create_session_def Let_def start_cases LSPSession_init_def split: outcome.splits)

lemma set_update_subset: "set (AList.update k v al) \<subseteq> insert (k, v) (set al)"
  by (induction al) auto

lemma set_delete_subset: "set (AList.delete k al) \<subseteq> set al"
  by (auto simp add: AList.delete_eq)

lemma one_session_per_id_create:
  assumes "one_session_per_id m"
  shows "one_session_per_id (apply_operation (CreateSession os env lang path) m)"
  using create_session_cases [of os env lang path m] assms set_update_subset
  by (fastforce simp add: one_session_per_id_def distinct_update)

lemma delete_sessions:
  "sessions (apply_operation (DeleteSession r sid) m) = AList.delete sid (sessions m)"
  by (simp add: delete_session_def Let_def stop_returns split: option.splits)

lemma one_session_per_id_delete:
  assumes "one_session_per_id m"
  shows "one_session_per_id (apply_operation (DeleteSession r sid) m)"
  using assms set_delete_subset [of sid "sessions m"]
  by (auto simp only: one_session_per_id_def delete_sessions distinct_delete)

lemma one_session_per_id_apply:
  "one_session_per_id m \<Longrightarrow> one_session_per_id (apply_operation op m)"
  by (cases op) (simp_all only: one_session_per_id_create one_session_per_id_delete)

lemma one_session_per_id_run:
  "one_session_per_id m \<Longrightarrow> one_session_per_id (run ops m)"
  by (induction ops arbitrary: m) (simp_all add: one_session_per_id_apply)

lemma keeps_entries_fresh:
  assumes "one_session_per_id m"
    and "distinct (created_ids ops m)"
    and "set (created_ids ops m) \<inter> fst ` set (sessions m) = {}"
  shows "keeps_entries ops m"
  using assms
proof (induction ops arbitrary: m)
  case Nil
  then show ?case by simp
next
  case (Cons op ops)
  show ?case
  proof (cases op)
    case (CreateSession os env lang path)
    let ?m' = "apply_operation (CreateSession os env lang path) m"
    have inv': "one_session_per_id ?m'"
      using Cons.prems(1) by (rule one_session_per_id_create)
    from create_session_cases [of os env lang path m]
    consider (ok) s evs where
        "create_session os env lang path m =
           (Returns s, m\<lparr>sessions := AList.update (session_id s) s (sessions m)\<rparr>, evs)"
      | (failed) e evs where "create_session os env lang path m = (Raises e, m, evs)"
      by blast
    then show ?thesis
    proof cases
      case ok
      then have m': "sessions ?m' = AList.update (session_id s) s (sessions m)"
        by simp
      from ok Cons.prems(2,3) CreateSession
      have fresh: "session_id s \<notin> fst ` set (sessions m)"
        and d: "distinct (created_ids ops ?m')"
        and notin: "session_id s \<notin> set (created_ids ops ?m')"
        and disj: "set (created_ids ops ?m') \<inter> fst ` set (sessions m) = {}"
        by auto
      have kept: "\<forall>(k, v) \<in> set (sessions m). map_of (sessions ?m') k = Some v"
      proof (clarify)
        fix k v assume kv: "(k, v) \<in> set (sessions m)"
        then have "k \<noteq> session_id s" using fresh by force
        moreover have "map_of (sessions m) k = Some v"
          using kv Cons.prems(1) by (simp add: one_session_per_id_def)
        ultimately show "map_of (sessions ?m') k = Some v"
          by (simp add: m' update_conv' del: apply_operation.simps)
      qed
      have "set (created_ids ops ?m') \<inter> fst ` set (sessions ?m') = {}"
        using disj notin by (auto simp add: m' dom_update simp del: apply_operation.simps)
      with inv' d have "keeps_entries ops ?m'"
        by (rule Cons.IH)
      with kept CreateSession show ?thesis by simp
    next
      case failed
      then have m': "?m' = m" by simp
      have kept: "\<forall>(k, v) \<in> set (sessions m). map_of (sessions ?m') k = Some v"
        using Cons.prems(1)
        by (auto simp add: m' one_session_per_id_def simp del: apply_operation.simps)
      from failed Cons.prems(2,3) CreateSession
      have "distinct (created_ids ops ?m')"
        and "set (created_ids ops ?m') \<inter> fst ` set (sessions ?m') = {}"
        by (auto simp add: m' simp del: apply_operation.simps)
      with inv' have "keeps_entries ops ?m'"
        by (rule Cons.IH)
      with kept CreateSession show ?thesis by simp
    qed
  next
    case (DeleteSession r sid)
    let ?m' = "apply_operation (DeleteSession r sid) m"
    have inv': "one_session_per_id ?m'"
      using Cons.prems(1) by (rule one_session_per_id_delete)
    have "fst ` set (sessions ?m') \<subseteq> fst ` set (sessions m)"
      by (simp only: delete_sessions dom_delete_subset)
    with Cons.prems(2,3) DeleteSession
    have "distinct (created_ids ops ?m')"
      and "set (created_ids ops ?m') \<inter> fst ` set (sessions ?m') = {}"
      by (simp_all del: apply_operation.simps) blast
    with inv' have "keeps_entries ops ?m'"
      by (rule Cons.IH)
    with DeleteSession show ?thesis by simp
  qed
qed

lemma one_session_per_id_init: "one_session_per_id (SessionManager_init l)"
  by (simp add: one_session_per_id_def SessionManager_init_def)

text \<open>A session that is in the registry has its client handle and its server context set:
  a session whose \<open>start\<close> raised is never stored.\<close>

lemma create_session_started:
  "create_session os env lang path m = (Returns s, m', evs) \<Longrightarrow>
     lsp s \<noteq> None \<and> server_context s \<noteq> None"
  by (auto simp add: create_session_def Let_def start_cases split: if_splits outcome.splits)

lemma registry_sessions_started:
  assumes "\<forall>(k, s) \<in> set (sessions m). lsp s \<noteq> None \<and> server_context s \<noteq> None"
  shows "\<forall>(k, s) \<in> set (sessions (run ops m)). lsp s \<noteq> None \<and> server_context s \<noteq> None"
  using assms
proof (induction ops arbitrary: m)
  case Nil
  then show ?case by simp
next
  case (Cons op ops)
  have "\<forall>(k, s) \<in> set (sessions (apply_operation op m)).
          lsp s \<noteq> None \<and> server_context s \<noteq> None"
  proof (cases op)
    case (CreateSession os env lang path)
    from create_session_cases [of os env lang path m] show ?thesis
    proof (elim disjE exE conjE)
      fix s evs
      assume c: "create_session os env lang path m =
          (Returns s, m\<lparr>sessions := AList.update (session_id s) s (sessions m)\<rparr>, evs)"
      then have "lsp s \<noteq> None \<and> server_context s \<noteq> None"
        by (rule create_session_started)
      with c Cons.prems CreateSession set_update_subset [of "session_id s" s "sessions m"]
      show ?thesis by auto
    next
      fix e evs
      assume "create_session os env lang path m = (Raises e, m, evs)"
      with Cons.prems CreateSession show ?thesis by simp
    qed
  next
    case (DeleteSession r sid)
    with Cons.prems set_delete_subset [of sid "sessions m"] show ?thesis
      by (auto simp only: delete_sessions)
  qed
  then show ?case
    using Cons.IH by simp
qed

text \<open>Interleavings of two event lists that take and free the same lock.\<close>

lemma not_lock_event: "\<not> lock_event e \<Longrightarrow> enabled held e \<and> held_after held e = held"
  by (cases e) simp_all

lemma interleaving_left_done:
  "interleaving held [] t2 r \<Longrightarrow> r = map (Pair T2) t2"
proof (induction r arbitrary: held t2)
  case Nil
  then show ?case by simp
next
  case (Cons a r)
  obtain t e where a: "a = (t, e)" by (cases a)
  with Cons show ?case
    by (cases t; cases t2) auto
qed

lemma interleaving_right_done:
  "interleaving held t1 [] r \<Longrightarrow> r = map (Pair T1) t1"
proof (induction r arbitrary: held t1)
  case Nil
  then show ?case by simp
next
  case (Cons a r)
  obtain t e where a: "a = (t, e)" by (cases a)
  with Cons show ?case
    by (cases t; cases t1) auto
qed

lemma left_holds_lock:
  assumes "l \<in> held" and "\<forall>e \<in> set b. \<not> lock_event e"
    and "interleaving held (b @ [Release l]) (Acquire l # t2) r"
  shows "r = map (Pair T1) (b @ [Release l]) @ map (Pair T2) (Acquire l # t2)"
  using assms
proof (induction b arbitrary: r)
  case Nil
  show ?case
  proof (cases r)
    case Nil
    with Nil.prems show ?thesis by simp
  next
    case (Cons a r')
    obtain t e where a: "a = (t, e)" by (cases a)
    show ?thesis
    proof (cases t)
      case T1
      with Nil.prems Cons a have "e = Release l" and "interleaving (held - {l}) [] (Acquire l # t2) r'"
        by auto
      then show ?thesis
        using Cons a T1 interleaving_left_done [of "held - {l}" "Acquire l # t2" r'] by simp
    next
      case T2
      with Nil.prems Cons a show ?thesis by auto
    qed
  qed
next
  case (Cons x b)
  show ?case
  proof (cases r)
    case Nil
    with Cons.prems show ?thesis by simp
  next
    case (Cons a r')
    obtain t e where a: "a = (t, e)" by (cases a)
    show ?thesis
    proof (cases t)
      case T1
      from Cons.prems(2) have x: "enabled held x \<and> held_after held x = held"
        by (simp add: not_lock_event)
      with Cons.prems \<open>r = a # r'\<close> a T1
      have "e = x" and "interleaving held (b @ [Release l]) (Acquire l # t2) r'"
        by auto
      moreover from this Cons.prems have "r' = map (Pair T1) (b @ [Release l]) @ map (Pair T2) (Acquire l # t2)"
        by (intro Cons.IH) simp_all
      ultimately show ?thesis
        using \<open>r = a # r'\<close> a T1 by simp
    next
      case T2
      with Cons.prems \<open>r = a # r'\<close> a show ?thesis by auto
    qed
  qed
qed


lemma right_holds_lock:
  assumes "l \<in> held" and "\<forall>e \<in> set b. \<not> lock_event e"
    and "interleaving held (Acquire l # t1) (b @ [Release l]) r"
  shows "r = map (Pair T2) (b @ [Release l]) @ map (Pair T1) (Acquire l # t1)"
  using assms
proof (induction b arbitrary: r)
  case Nil
  show ?case
  proof (cases r)
    case Nil
    with Nil.prems show ?thesis by simp
  next
    case (Cons a r')
    obtain t e where a: "a = (t, e)" by (cases a)
    show ?thesis
    proof (cases t)
      case T2
      with Nil.prems Cons a have "e = Release l" and "interleaving (held - {l}) (Acquire l # t1) [] r'"
        by auto
      then show ?thesis
        using Cons a T2 interleaving_right_done [of "held - {l}" "Acquire l # t1" r'] by simp
    next
      case T1
      with Nil.prems Cons a show ?thesis by auto
    qed
  qed
next
  case (Cons x b)
  show ?case
  proof (cases r)
    case Nil
    with Cons.prems show ?thesis by simp
  next
    case (Cons a r')
    obtain t e where a: "a = (t, e)" by (cases a)
    show ?thesis
    proof (cases t)
      case T2
      from Cons.prems(2) have x: "enabled held x \<and> held_after held x = held"
        by (simp add: not_lock_event)
      with Cons.prems \<open>r = a # r'\<close> a T2
      have "e = x" and "interleaving held (Acquire l # t1) (b @ [Release l]) r'"
        by auto
      moreover from this Cons.prems have "r' = map (Pair T2) (b @ [Release l]) @ map (Pair T1) (Acquire l # t1)"
        by (intro Cons.IH) simp_all
      ultimately show ?thesis
        using \<open>r = a # r'\<close> a T2 by simp
    next
      case T1
      with Cons.prems \<open>r = a # r'\<close> a show ?thesis by auto
    qed
  qed
qed

lemma one_lock_serializes:
  assumes b1: "\<forall>e \<in> set b1. \<not> lock_event e" and b2: "\<forall>e \<in> set b2. \<not> lock_event e"
    and r: "interleaving {} (Acquire l # b1 @ [Release l]) (Acquire l # b2 @ [Release l]) r"
  shows "r = map (Pair T1) (Acquire l # b1 @ [Release l]) @ map (Pair T2) (Acquire l # b2 @ [Release l])
       \<or> r = map (Pair T2) (Acquire l # b2 @ [Release l]) @ map (Pair T1) (Acquire l # b1 @ [Release l])"
proof (cases r)
  case Nil
  with r show ?thesis by simp
next
  case (Cons a r')
  obtain t e where a: "a = (t, e)" by (cases a)
  show ?thesis
  proof (cases t)
    case T1
    with r Cons a have "e = Acquire l"
      and "interleaving {l} (b1 @ [Release l]) (Acquire l # b2 @ [Release l]) r'"
      by auto
    then show ?thesis
      using left_holds_lock [of l "{l}" b1 "b2 @ [Release l]" r'] b1 Cons a T1 by simp
  next
    case T2
    with r Cons a have "e = Acquire l"
      and "interleaving {l} (Acquire l # b1 @ [Release l]) (b2 @ [Release l]) r'"
      by auto
    then show ?thesis
      using right_holds_lock [of l "{l}" b2 "b1 @ [Release l]" r'] b2 Cons a T2 by simp
  qed
qed

lemma get_diagnostics_events_shape:
  "(lsp s = None \<and> snd (get_diagnostics env file_path s) = [])
   \<or> (\<exists>b. snd (get_diagnostics env file_path s) =
             Acquire (session_lock s) # b @ [Release (session_lock s)]
          \<and> (\<forall>e \<in> set b. \<not> lock_event e))"
proof (cases "lsp s")
  case None
  then show ?thesis by (simp add: get_diagnostics_def)
next
  case (Some c)
  show ?thesis
  proof (cases "open_file_enter env")
    case (Returns u)
    with Some have "snd (get_diagnostics env file_path s) =
        Acquire (session_lock s) #
        [OpenFileEnter c file_path, Sleep (if language s = ''python'' then 2 else 5),
         RequestDiagnostics c file_path, OpenFileExit c file_path] @ [Release (session_lock s)]"
      by (simp add: get_diagnostics_def)
    moreover have "\<forall>e \<in> set [OpenFileEnter c file_path, Sleep (if language s = ''python'' then 2 else 5),
         RequestDiagnostics c file_path, OpenFileExit c file_path]. \<not> lock_event e"
      by simp
    ultimately show ?thesis by blast
  next
    case (Raises e)
    with Some have "snd (get_diagnostics env file_path s) =
        Acquire (session_lock s) # [OpenFileEnter c file_path] @ [Release (session_lock s)]"
      by (simp add: get_diagnostics_def)
    moreover have "\<forall>e \<in> set [OpenFileEnter c file_path]. \<not> lock_event e"
      by simp
    ultimately show ?thesis by blast
  qed
qed

lemma serialized_one_after_the_other:
  "serialized (map (Pair T1) t1 @ map (Pair T2) t2)"
  "serialized (map (Pair T2) t2 @ map (Pair T1) t1)"
  by (simp_all add: serialized_def filter_map comp_def)

lemma different_locks_overlap:
  assumes "session_lock s1 \<noteq> session_lock s2" and "lsp s1 = Some c1" and "lsp s2 = Some c2"
    and "open_file_enter env1 = Returns ()"
  shows "\<exists>r. interleaving {} (snd (get_diagnostics env1 f1 s1)) (snd (get_diagnostics env2 f2 s2)) r
           \<and> \<not> serialized r"
proof -
  let ?t1 = "snd (get_diagnostics env1 f1 s1)" and ?t2 = "snd (get_diagnostics env2 f2 s2)"
  let ?r = "map (Pair T1) (take 2 ?t1) @ map (Pair T2) ?t2 @ map (Pair T1) (drop 2 ?t1)"
  have "interleaving {} ?t1 ?t2 ?r"
    using assms by (cases "open_file_enter env2") (simp_all add: get_diagnostics_def)
  moreover have "\<not> serialized ?r"
    using assms by (cases "open_file_enter env2") (simp_all add: get_diagnostics_def serialized_def)
  ultimately show ?thesis by blast
qed

lemmas example_defs =
  example_os_def example_create_env_def example_start_env_def colliding_create_env_def
  other_create_env_def SessionManager_init_def create_session_def delete_session_def start_cases
  LSPSession_init_def stop_returns Let_def

subsection \<open>get_diagnostics\<close>

text \<open>
  C1. On a session whose client handle is set, \<open>get_diagnostics\<close> takes the session's lock,
  enters the scope of \<^verbatim>\<open>open_file\<close> on the file, sleeps 2 seconds for \<^verbatim>\<open>python\<close> and 5
  otherwise, asks the client for the diagnostics of the file, leaves the scope and releases
  the lock, in this order and whatever the request does; when the request returns a list and
  leaving the scope does not raise, that very list is the result. When entering the scope
  raises there is nothing to leave: the lock is released and the error propagates. The wait
  of a \<^verbatim>\<open>java\<close> session is longer than that of a \<^verbatim>\<open>python\<close> session.
\<close>

theorem get_diagnostics_steps:
  assumes "lsp s = Some c"
  shows "(open_file_enter env = Returns () \<longrightarrow>
            snd (get_diagnostics env file_path s) =
              [Acquire (session_lock s), OpenFileEnter c file_path,
               Sleep (if language s = ''python'' then 2 else 5),
               RequestDiagnostics c file_path, OpenFileExit c file_path,
               Release (session_lock s)])
       \<and> (open_file_enter env = Returns () \<and> request_diagnostics_result env = Returns ds
            \<and> open_file_exit env = ExitReturns b
            \<longrightarrow> fst (get_diagnostics env file_path s) = Returns (Some ds))
       \<and> (open_file_enter env = Raises e \<longrightarrow>
            get_diagnostics env file_path s =
              (Raises e, [Acquire (session_lock s), OpenFileEnter c file_path,
                          Release (session_lock s)]))
       \<and> (language s = ''python'' \<and> language s' = ''java''
            \<and> Sleep d \<in> set (snd (get_diagnostics env file_path s))
            \<and> Sleep d' \<in> set (snd (get_diagnostics env' file_path' s'))
            \<longrightarrow> d < d')"
  using assms
  by (auto simp add: get_diagnostics_def with_exit_def split: outcome.splits option.splits)

theorem get_diagnostics_steps_witness:
  "lsp example_session = Some 7
   \<and> open_file_enter example_diagnostics_env = Returns ()
   \<and> request_diagnostics_result example_diagnostics_env =
       Returns [example_diagnostic, example_diagnostic]
   \<and> open_file_exit example_diagnostics_env = ExitReturns False
   \<and> get_diagnostics example_diagnostics_env ''src/main.py'' example_session =
       (Returns (Some [example_diagnostic, example_diagnostic]),
        [Acquire 1, OpenFileEnter 7 ''src/main.py'', Sleep 2,
         RequestDiagnostics 7 ''src/main.py'', OpenFileExit 7 ''src/main.py'', Release 1])
   \<and> language example_session = ''python'' \<and> language other_session = ''java''
   \<and> Sleep 2 \<in> set (snd (get_diagnostics example_diagnostics_env ''src/main.py''
                             example_session))
   \<and> Sleep 5 \<in> set (snd (get_diagnostics example_diagnostics_env ''src/Main.java''
                             other_session))
   \<and> open_file_enter missing_file_env = Raises (FileNotFoundError ''src/gone.py'')
   \<and> get_diagnostics missing_file_env ''src/gone.py'' example_session =
       (Raises (FileNotFoundError ''src/gone.py''),
        [Acquire 1, OpenFileEnter 7 ''src/gone.py'', Release 1])"
  using get_diagnostics_steps
          [where s = example_session and c = 7 and env = example_diagnostics_env
             and file_path = "''src/main.py''"
             and ds = "[example_diagnostic, example_diagnostic]" and b = False
             and e = "FileNotFoundError ''src/gone.py''"
             and s' = other_session and d = 2 and d' = 5
             and env' = example_diagnostics_env and file_path' = "''src/Main.java''"]
        get_diagnostics_steps
          [where s = example_session and c = 7 and env = missing_file_env
             and file_path = "''src/gone.py''" and ds = "[]" and b = False
             and e = "FileNotFoundError ''src/gone.py''"
             and s' = other_session and d = 2 and d' = 5
             and env' = example_diagnostics_env and file_path' = "''src/Main.java''"]
  by (simp add: example_session_def other_session_def example_diagnostics_env_def
        missing_file_env_def prod_eq_iff get_diagnostics_def)

text \<open>
  C6. \<open>get_diagnostics\<close> tests the client handle, not whether the client runs. A session
  whose client handle is not set, which is the state \<open>__init__\<close> builds and the state
  \<open>stop\<close> leaves, answers \<open>get_diagnostics\<close> with the error
  \<^verbatim>\<open>RuntimeError("LSP server not started")\<close> and without any event: no lock is taken and
  no operation of the client is invoked.
\<close>

theorem get_diagnostics_not_running:
  "(lsp s = None \<longrightarrow>
      get_diagnostics env file_path s = (Raises (RuntimeError ''LSP server not started''), []))
   \<and> get_diagnostics env file_path (fst (snd (stop r s))) =
       (Raises (RuntimeError ''LSP server not started''), [])
   \<and> get_diagnostics env file_path (LSPSession_init now l sid lang path) =
       (Raises (RuntimeError ''LSP server not started''), [])"
  by (simp add: get_diagnostics_def stop_returns LSPSession_init_def)

theorem get_diagnostics_not_running_witness:
  "lsp (example_session\<lparr>lsp := None\<rparr>) = None
   \<and> get_diagnostics example_diagnostics_env ''src/main.py'' (example_session\<lparr>lsp := None\<rparr>) =
       (Raises (RuntimeError ''LSP server not started''), [])
   \<and> get_diagnostics example_diagnostics_env ''src/main.py''
         (fst (snd (stop (Returns ()) example_session))) =
       (Raises (RuntimeError ''LSP server not started''), [])"
  using get_diagnostics_not_running
          [where s = "example_session\<lparr>lsp := None\<rparr>" and env = example_diagnostics_env
             and file_path = "''src/main.py''"]
        get_diagnostics_not_running
          [where s = example_session and r = "Returns ()" and env = example_diagnostics_env
             and file_path = "''src/main.py''"]
  by simp

text \<open>
  A session whose \<open>start\<close> raised in \<^verbatim>\<open>start_server\<close> has no running client and keeps
  the handle that \<^verbatim>\<open>create\<close> returned: \<open>get_diagnostics\<close> does not raise the error
  above on it, it opens the file on that client and asks it for diagnostics.
\<close>

theorem failed_start_session_counterexample:
  "start failing_start_env
     (LSPSession_init 1700000000 1 ''0123456789ab'' ''java'' ''/srv/lib'') =
     (Raises (OtherError ''language server exited''), failed_start_session,
      [Create JAVA ''/srv/lib'', StartServer 7])
   \<and> lsp failed_start_session = Some 7
   \<and> get_diagnostics example_diagnostics_env ''src/Main.java'' failed_start_session =
       (Returns (Some [example_diagnostic, example_diagnostic]),
        [Acquire 1, OpenFileEnter 7 ''src/Main.java'', Sleep 5,
         RequestDiagnostics 7 ''src/Main.java'', OpenFileExit 7 ''src/Main.java'', Release 1])
   \<and> fst (get_diagnostics example_diagnostics_env ''src/Main.java'' failed_start_session) \<noteq>
       Raises (RuntimeError ''LSP server not started'')
   \<and> client_operation (OpenFileEnter 7 ''src/Main.java'')"
  by (simp add: failed_start_session_def failing_start_env_def start_cases LSPSession_init_def
        get_diagnostics_def example_diagnostics_env_def with_exit_def)

subsection \<open>stop\<close>

text \<open>
  C10. Whatever the release of the client does, \<open>stop\<close> returns, and the session it leaves
  has neither client handle nor server context. A second \<open>stop\<close> on that session returns
  too, changes nothing and makes no call: the release is not attempted again.
\<close>

theorem stop_clears_and_second_stop_is_noop:
  "stop r s =
     (Returns (), s\<lparr>lsp := None, server_context := None\<rparr>,
      (case server_context s of Some x \<Rightarrow> [ContextExit x] | None \<Rightarrow> []))
   \<and> lsp (fst (snd (stop r s))) = None
   \<and> server_context (fst (snd (stop r s))) = None
   \<and> stop r' (fst (snd (stop r s))) = (Returns (), fst (snd (stop r s)), [])"
  by (simp add: stop_returns)

text \<open>
  C5. An error raised by the release of the client inside \<open>stop\<close> is caught there: \<open>stop\<close>
  returns, after having made the call, and \<open>delete_session\<close> returns \<^verbatim>\<open>True\<close> for an id
  that was in the registry.
\<close>

theorem stop_swallows_release_error:
  "fst (stop (Raises e) s) = Returns ()
   \<and> (server_context s = Some x \<longrightarrow>
        stop (Raises e) s =
          (Returns (), s\<lparr>lsp := None, server_context := None\<rparr>, [ContextExit x]))
   \<and> (map_of (sessions m) sid = Some s \<longrightarrow>
        fst (delete_session (Raises e) sid m) = Returns True)"
  by (simp add: stop_returns delete_session_def)

theorem stop_swallows_release_error_witness:
  "server_context example_session = Some 8
   \<and> stop (Raises (OtherError ''process did not terminate'')) example_session =
       (Returns (), example_session\<lparr>lsp := None, server_context := None\<rparr>, [ContextExit 8])
   \<and> map_of (sessions example_manager) ''0123456789ab'' = Some example_session
   \<and> fst (delete_session (Raises (OtherError ''process did not terminate''))
            ''0123456789ab'' example_manager) = Returns True"
  using stop_swallows_release_error
          [where e = "OtherError ''process did not terminate''" and s = example_session
             and x = 8 and m = example_manager and sid = "''0123456789ab''"]
  by (simp add: example_manager_def example_session_def)

subsection \<open>create_session, get_session, delete_session\<close>

text \<open>
  C7. \<open>create_session\<close> raises \<^verbatim>\<open>ValueError\<close> when the language is neither \<^verbatim>\<open>python\<close>
  nor \<^verbatim>\<open>java\<close>, when the path is not absolute, and when it is not a directory. In each
  of these cases the registry is returned as it was and there is no event: no client is
  created and none is started.
\<close>

theorem create_session_validation:
  assumes "lang \<notin> {''python'', ''java''} \<or> \<not> isabs os path \<or> \<not> isdir os path"
  shows "\<exists>msg. create_session os env lang path m = (Raises (ValueError msg), m, [])"
  using assms by (auto simp add: create_session_def)

theorem create_session_validation_witness:
  "\<not> isabs example_os ''srv/app''
   \<and> \<not> isdir example_os ''/srv/missing''
   \<and> ''rust'' \<notin> {''python'', ''java''}
   \<and> (\<exists>msg. create_session example_os example_create_env ''python'' ''srv/app''
               example_manager = (Raises (ValueError msg), example_manager, []))
   \<and> (\<exists>msg. create_session example_os example_create_env ''java'' ''/srv/missing''
               example_manager = (Raises (ValueError msg), example_manager, []))
   \<and> (\<exists>msg. create_session example_os example_create_env ''rust'' ''/srv/app''
               example_manager = (Raises (ValueError msg), example_manager, []))"
  using create_session_validation
          [where os = example_os and env = example_create_env and lang = "''python''"
             and path = "''srv/app''" and m = example_manager]
        create_session_validation
          [where os = example_os and env = example_create_env and lang = "''java''"
             and path = "''/srv/missing''" and m = example_manager]
        create_session_validation
          [where os = example_os and env = example_create_env and lang = "''rust''"
             and path = "''/srv/app''" and m = example_manager]
  by (simp add: example_os_def)

text \<open>
  C2. With a supported language and an absolute, existing directory, \<open>create_session\<close>
  builds a session and starts it. When \<open>start\<close> raises, the error is the result of
  \<open>create_session\<close>, the registry is returned as it was and no store has happened. When
  \<open>start\<close> returns, the started session is stored under its id, after every event of
  \<open>start\<close>, and it is the result.
\<close>

theorem create_session_inserts_after_start:
  assumes "lang \<in> {''python'', ''java''}" and "isabs os path" and "isdir os path"
    and "start (starting env)
           (LSPSession_init (time_now env) (new_lock env) (take 12 (uuid4_hex env)) lang path)
         = (r, s', evs)"
  shows "(r = Raises e \<longrightarrow>
            create_session os env lang path m = (Raises e, m, evs)
            \<and> SessionsStore k \<notin> set evs)
       \<and> (r = Returns () \<longrightarrow>
            create_session os env lang path m =
              (Returns s',
               m\<lparr>sessions := AList.update (take 12 (uuid4_hex env)) s' (sessions m)\<rparr>,
               evs @ [Acquire (manager_lock m), SessionsStore (take 12 (uuid4_hex env)),
                      Release (manager_lock m)])
            \<and> SessionsStore k \<notin> set evs
            \<and> map_of (sessions (fst (snd (create_session os env lang path m))))
                 (take 12 (uuid4_hex env)) = Some s')"
  using assms start_no_store [OF assms(4)]
  by (auto simp add: create_session_def Let_def update_conv')

theorem create_session_inserts_after_start_witness:
  "''java'' \<in> {''python'', ''java''} \<and> isabs example_os ''/srv/lib''
   \<and> isdir example_os ''/srv/lib''
   \<and> start (starting failing_create_env)
        (LSPSession_init (time_now failing_create_env) (new_lock failing_create_env)
           (take 12 (uuid4_hex failing_create_env)) ''java'' ''/srv/lib'')
      = (Raises (OtherError ''language server exited''),
         (LSPSession_init 1700000000 1 ''0123456789ab'' ''java'' ''/srv/lib'')\<lparr>lsp := Some 7\<rparr>,
         [Create JAVA ''/srv/lib'', StartServer 7])
   \<and> create_session example_os failing_create_env ''java'' ''/srv/lib'' example_manager =
       (Raises (OtherError ''language server exited''), example_manager,
        [Create JAVA ''/srv/lib'', StartServer 7])
   \<and> start (starting other_create_env)
        (LSPSession_init (time_now other_create_env) (new_lock other_create_env)
           (take 12 (uuid4_hex other_create_env)) ''java'' ''/srv/lib'')
      = (Returns (), other_session,
         [Create JAVA ''/srv/lib'', StartServer 9, ContextEnter 10])
   \<and> create_session example_os other_create_env ''java'' ''/srv/lib'' example_manager =
       (Returns other_session,
        example_manager\<lparr>sessions := [(''0123456789ab'', example_session),
                                     (''fedcba987654'', other_session)]\<rparr>,
        [Create JAVA ''/srv/lib'', StartServer 9, ContextEnter 10,
         Acquire 0, SessionsStore ''fedcba987654'', Release 0])"
  using create_session_inserts_after_start
          [where os = example_os and env = failing_create_env and lang = "''java''"
             and path = "''/srv/lib''" and m = example_manager
             and r = "Raises (OtherError ''language server exited'')"
             and e = "OtherError ''language server exited''"
             and s' = "(LSPSession_init 1700000000 1 ''0123456789ab'' ''java'' ''/srv/lib'')
                         \<lparr>lsp := Some 7\<rparr>"
             and evs = "[Create JAVA ''/srv/lib'', StartServer 7]"
             and k = "''0123456789ab''"]
        create_session_inserts_after_start
          [where os = example_os and env = other_create_env and lang = "''java''"
             and path = "''/srv/lib''" and m = example_manager
             and r = "Returns ()"
             and e = "OtherError ''language server exited''"
             and s' = other_session
             and evs = "[Create JAVA ''/srv/lib'', StartServer 9, ContextEnter 10]"
             and k = "''fedcba987654''"]
  by (simp add: example_os_def failing_create_env_def failing_start_env_def
        other_create_env_def other_session_def example_manager_def start_cases
        LSPSession_init_def)

text \<open>
  C9. With a supported language, an absolute, existing directory and a client library
  whose three calls succeed, \<open>create_session\<close> returns a session; \<open>get_session\<close> on its id
  in the new registry returns that session; its client handle and server context are set,
  and the client has been started and entered.
\<close>

theorem create_then_get_session:
  assumes "lang \<in> {''python'', ''java''}" and "isabs os path" and "isdir os path"
    and "create_result (starting env) = Returns c"
    and "start_server_result (starting env) = Returns x"
    and "enter_result (starting env) = Returns ()"
  shows "\<exists>s m' evs.
           create_session os env lang path m = (Returns s, m', evs)
         \<and> fst (get_session (session_id s) m') = Some s
         \<and> lsp s = Some c \<and> server_context s = Some x
         \<and> StartServer c \<in> set evs \<and> ContextEnter x \<in> set evs"
  using assms
  by (auto simp add: create_session_def Let_def start_cases LSPSession_init_def
        get_session_def update_conv')

theorem create_then_get_session_witness:
  "''python'' \<in> {''python'', ''java''} \<and> isabs example_os ''/srv/app''
   \<and> isdir example_os ''/srv/app''
   \<and> create_result (starting example_create_env) = Returns 7
   \<and> start_server_result (starting example_create_env) = Returns 8
   \<and> enter_result (starting example_create_env) = Returns ()
   \<and> (\<exists>s m' evs.
         create_session example_os example_create_env ''python'' ''/srv/app''
           (SessionManager_init 0) = (Returns s, m', evs)
       \<and> fst (get_session (session_id s) m') = Some s
       \<and> lsp s = Some 7 \<and> server_context s = Some 8
       \<and> StartServer 7 \<in> set evs \<and> ContextEnter 8 \<in> set evs)"
  using create_then_get_session
          [where os = example_os and env = example_create_env and lang = "''python''"
             and path = "''/srv/app''" and m = "SessionManager_init 0" and c = 7 and x = 8]
  by (simp add: example_os_def example_create_env_def example_start_env_def)

text \<open>
  C4. For an id in the registry, \<open>delete_session\<close> pops the entry, then stops the popped
  session (the pop comes before the release of the client in the events), and returns
  \<^verbatim>\<open>True\<close>; \<open>get_session\<close> on that id in the new registry finds nothing. For an id that
  is not in the registry it returns \<^verbatim>\<open>False\<close> and the registry is as it was.
\<close>

theorem delete_session_pops_then_stops:
  "(map_of (sessions m) sid = Some s \<longrightarrow>
      delete_session r sid m =
        (Returns True, m\<lparr>sessions := AList.delete sid (sessions m)\<rparr>,
         [Acquire (manager_lock m), SessionsPop sid, Release (manager_lock m)] @
         (case server_context s of Some x \<Rightarrow> [ContextExit x] | None \<Rightarrow> []))
      \<and> fst (get_session sid (fst (snd (delete_session r sid m)))) = None)
   \<and> (map_of (sessions m) sid = None \<longrightarrow>
      delete_session r sid m =
        (Returns False, m,
         [Acquire (manager_lock m), SessionsPop sid, Release (manager_lock m)]))"
proof (intro conjI impI)
  assume present: "map_of (sessions m) sid = Some s"
  then show "delete_session r sid m =
        (Returns True, m\<lparr>sessions := AList.delete sid (sessions m)\<rparr>,
         [Acquire (manager_lock m), SessionsPop sid, Release (manager_lock m)] @
         (case server_context s of Some x \<Rightarrow> [ContextExit x] | None \<Rightarrow> []))"
    by (simp add: delete_session_def stop_returns)
  then show "fst (get_session sid (fst (snd (delete_session r sid m)))) = None"
    by (simp add: get_session_def delete_conv')
next
  assume absent: "map_of (sessions m) sid = None"
  then have "sid \<notin> fst ` set (sessions m)"
    by (simp add: map_of_eq_None_iff)
  then have "AList.delete sid (sessions m) = sessions m"
    by simp
  with absent show "delete_session r sid m =
        (Returns False, m,
         [Acquire (manager_lock m), SessionsPop sid, Release (manager_lock m)])"
    by (simp add: delete_session_def)
qed

theorem delete_session_pops_then_stops_witness:
  "map_of (sessions example_manager) ''0123456789ab'' = Some example_session
   \<and> delete_session (Returns ()) ''0123456789ab'' example_manager =
       (Returns True, example_manager\<lparr>sessions := []\<rparr>,
        [Acquire 0, SessionsPop ''0123456789ab'', Release 0, ContextExit 8])
   \<and> fst (get_session ''0123456789ab''
            (fst (snd (delete_session (Returns ()) ''0123456789ab'' example_manager)))) = None
   \<and> map_of (sessions example_manager) ''ffffffffffff'' = None
   \<and> delete_session (Returns ()) ''ffffffffffff'' example_manager =
       (Returns False, example_manager,
        [Acquire 0, SessionsPop ''ffffffffffff'', Release 0])"
  using delete_session_pops_then_stops
          [where m = example_manager and sid = "''0123456789ab''" and s = example_session
             and r = "Returns ()"]
        delete_session_pops_then_stops
          [where m = example_manager and sid = "''ffffffffffff''" and r = "Returns ()"]
  by (simp add: example_manager_def example_session_def get_session_def)

subsection \<open>Session identifiers\<close>

text \<open>
  C8. The id of a new session is the first twelve digits of \<^verbatim>\<open>uuid.uuid4().hex\<close>, and
  \<open>create_session\<close> stores under it without looking at the registry. After every sequence
  of operations from the empty registry, the keys of the registry are pairwise distinct and
  every session is stored under its own id; and in a sequence in which the ids of the
  created sessions are pairwise distinct, no creation replaces an entry: every entry that is
  in the registry before a creation is there after it.
\<close>

theorem registry_one_session_per_id:
  "one_session_per_id (run ops (SessionManager_init l))
   \<and> (distinct (created_ids ops (SessionManager_init l)) \<longrightarrow>
        keeps_entries ops (SessionManager_init l))"
  using one_session_per_id_run [OF one_session_per_id_init]
    keeps_entries_fresh [OF one_session_per_id_init]
  by (simp add: SessionManager_init_def)

theorem registry_one_session_per_id_witness:
  "distinct (created_ids example_operations (SessionManager_init 0))
   \<and> keeps_entries example_operations (SessionManager_init 0)
   \<and> one_session_per_id (run example_operations (SessionManager_init 0))
   \<and> map fst (sessions (run example_operations (SessionManager_init 0))) = [''fedcba987654'']"
  using registry_one_session_per_id [of example_operations 0]
  by (simp add: example_operations_def example_defs)

text \<open>
  Two uuids that differ and begin with the same twelve digits: the second creation returns
  the id of the first, and the registry then holds the second session where the first was.
\<close>

theorem session_id_collision_counterexample:
  "uuid4_hex example_create_env \<noteq> uuid4_hex colliding_create_env
   \<and> created_ids collision_operations (SessionManager_init 0) =
       [''0123456789ab'', ''0123456789ab'']
   \<and> \<not> distinct (created_ids collision_operations (SessionManager_init 0))
   \<and> \<not> keeps_entries collision_operations (SessionManager_init 0)
   \<and> map (project_path \<circ> snd) (sessions (run (take 1 collision_operations) (SessionManager_init 0)))
       = [''/srv/app'']
   \<and> map (project_path \<circ> snd) (sessions (run collision_operations (SessionManager_init 0)))
       = [''/srv/lib'']"
  by (simp add: collision_operations_def example_defs)

subsection \<open>Concurrent calls of get_diagnostics\<close>

text \<open>
  C3. In every interleaving of two calls of \<open>get_diagnostics\<close> on the same session that the
  session's lock admits, one call runs from its first event to its last before the other
  begins, so the client operations of the two calls never alternate. For two sessions with
  different locks there is an interleaving in which the client operations of the two calls
  do alternate: the second call opens its file, waits and asks for its diagnostics while the
  first is inside the scope of its opened file.
\<close>

theorem get_diagnostics_mutual_exclusion:
  "(interleaving {} (snd (get_diagnostics env f s)) (snd (get_diagnostics env' f' s)) r \<longrightarrow>
      (r = map (Pair T1) (snd (get_diagnostics env f s))
           @ map (Pair T2) (snd (get_diagnostics env' f' s))
       \<or> r = map (Pair T2) (snd (get_diagnostics env' f' s))
           @ map (Pair T1) (snd (get_diagnostics env f s)))
      \<and> serialized r)
   \<and> (session_lock sa \<noteq> session_lock sb \<and> lsp sa \<noteq> None \<and> lsp sb \<noteq> None
      \<and> open_file_enter env = Returns () \<longrightarrow>
      (\<exists>r'. interleaving {} (snd (get_diagnostics env f sa))
                (snd (get_diagnostics env' f' sb)) r'
            \<and> \<not> serialized r'))"
proof (intro conjI impI)
  assume r: "interleaving {} (snd (get_diagnostics env f s)) (snd (get_diagnostics env' f' s)) r"
  let ?t1 = "snd (get_diagnostics env f s)" and ?t2 = "snd (get_diagnostics env' f' s)"
  have order: "r = map (Pair T1) ?t1 @ map (Pair T2) ?t2 \<or> r = map (Pair T2) ?t2 @ map (Pair T1) ?t1"
  proof (cases "lsp s")
    case None
    then have "?t1 = []" and "?t2 = []"
      by (simp_all add: get_diagnostics_def)
    with r interleaving_left_done [of "{}" "[]" r] show ?thesis by simp
  next
    case (Some c)
    with get_diagnostics_events_shape [of s env f] get_diagnostics_events_shape [of s env' f']
    obtain b1 b2 where "?t1 = Acquire (session_lock s) # b1 @ [Release (session_lock s)]"
      and "\<forall>e \<in> set b1. \<not> lock_event e"
      and "?t2 = Acquire (session_lock s) # b2 @ [Release (session_lock s)]"
      and "\<forall>e \<in> set b2. \<not> lock_event e"
      by auto
    with r one_lock_serializes [of b1 b2 "session_lock s" r] show ?thesis
      by simp
  qed
  then show "r = map (Pair T1) ?t1 @ map (Pair T2) ?t2 \<or> r = map (Pair T2) ?t2 @ map (Pair T1) ?t1" .
  from order show "serialized r"
    by (auto simp add: serialized_one_after_the_other)
next
  assume "session_lock sa \<noteq> session_lock sb \<and> lsp sa \<noteq> None \<and> lsp sb \<noteq> None
      \<and> open_file_enter env = Returns ()"
  then show "\<exists>r'. interleaving {} (snd (get_diagnostics env f sa))
                (snd (get_diagnostics env' f' sb)) r' \<and> \<not> serialized r'"
    using different_locks_overlap [of sa sb _ _ env f env' f'] by auto
qed

theorem get_diagnostics_mutual_exclusion_witness:
  "interleaving {}
     (snd (get_diagnostics example_diagnostics_env ''src/main.py'' example_session))
     (snd (get_diagnostics example_diagnostics_env ''src/util.py'' example_session))
     example_schedule
   \<and> serialized example_schedule
   \<and> session_lock example_session \<noteq> session_lock other_session
   \<and> lsp example_session \<noteq> None \<and> lsp other_session \<noteq> None
   \<and> open_file_enter example_diagnostics_env = Returns ()
   \<and> (\<exists>r'. interleaving {}
              (snd (get_diagnostics example_diagnostics_env ''src/main.py'' example_session))
              (snd (get_diagnostics example_diagnostics_env ''src/util.py'' other_session)) r'
            \<and> \<not> serialized r')"
  using get_diagnostics_mutual_exclusion
          [where s = example_session and env = example_diagnostics_env
             and env' = example_diagnostics_env and f = "''src/main.py''"
             and f' = "''src/util.py''" and r = example_schedule
             and sa = example_session and sb = other_session]
  by (simp add: example_schedule_def example_session_def other_session_def
        example_diagnostics_env_def get_diagnostics_def)

end
